theory Spec2Isabelle
  imports Main "HOL-Library.Word" "HOL-Library.Char_ord" "HOL-Library.List_Lexorder"
begin

section \<open>The record query of customstore and its compilation to a select statement\<close>

text \<open>
  The development follows the Go file that declares \<open>recordQueryImplementation\<close>:
  the query object with one "is set" flag per optional field, its setters, \<open>Validate\<close>,
  and \<open>ToSelectDataset\<close> with its helpers \<open>applyPayloadWhere\<close>, \<open>applyPagination\<close>,
  \<open>applyOrderBy\<close>, \<open>selectedColumns\<close> and \<open>softDeletedExpr\<close>.

  Conventions of the embedding:
  \<^item> a Go \<open>string\<close> is a list of bytes (\<open>string\<close>); a Go slice is a list, and a \<open>nil\<close>
    slice is the empty list (the code only takes \<open>len\<close> of its slices, ranges over them
    and appends to them, and all three treat \<open>nil\<close> as empty);
  \<^item> a Go \<open>int\<close> is a 64-bit word read as signed, a Go \<open>uint\<close> a 64-bit word read as
    unsigned;
  \<^item> methods with a pointer receiver that assign to a field take the query and return
    the updated query;
  \<^item> \<open>errors.New msg\<close> is the value \<open>errors_New msg\<close>, and a \<open>nil\<close> error is \<open>None\<close>;
  \<^item> the clock read by \<open>carbon.Now(carbon.UTC).ToDateTimeString()\<close> is an argument
    \<open>now\<close>, the date-time string it returned.
\<close>

subsection \<open>Go values\<close>

type_synonym go_int = "64 word"
type_synonym go_uint = "64 word"

text \<open>The conversion \<open>uint(n)\<close> of a Go \<open>int\<close>: the signed value modulo \<open>2 ^ 64\<close>.\<close>

definition to_uint :: "go_int \<Rightarrow> go_uint" where
  "to_uint n = word_of_int (sint n)"

datatype error = errors_New string

subsection \<open>\<open>strings.TrimSpace\<close>\<close>

text \<open>
  \<open>strings.TrimSpace\<close> removes leading and trailing white space as Unicode defines it,
  reading the string as UTF-8. The six ASCII spaces are single bytes; the other
  white-space runes (U+0085, U+00A0, U+1680, U+2000 to U+200A, U+2028, U+2029, U+202F,
  U+205F, U+3000) are two or three bytes long. \<open>spaceRuneWidth s\<close> is the number of bytes of
  the white-space rune that \<open>s\<close> starts with, and 0 when it starts with none. A byte
  sequence that is not valid UTF-8 decodes to the error rune, which is not white space.
\<close>

definition asciiSpace :: "char \<Rightarrow> bool" where
  "asciiSpace c \<longleftrightarrow>
     c = CHR 0x09 \<or> c = CHR 0x0A \<or> c = CHR 0x0B \<or> c = CHR 0x0C \<or> c = CHR 0x0D \<or> c = CHR 0x20"

fun spaceRuneWidth :: "string \<Rightarrow> nat" where
  "spaceRuneWidth [] = 0"
| "spaceRuneWidth (c # cs) =
     (if asciiSpace c then 1
      else if c = CHR 0xC2 then
        (case cs of
           d # _ \<Rightarrow> if d = CHR 0x85 \<or> d = CHR 0xA0 then 2 else 0
         | [] \<Rightarrow> 0)
      else
        (case cs of
           d # e # _ \<Rightarrow>
             if c = CHR 0xE1 \<and> d = CHR 0x9A \<and> e = CHR 0x80 then 3
             else if c = CHR 0xE2 \<and> d = CHR 0x80 \<and>
                     ((0x80::nat) \<le> of_char e \<and> of_char e \<le> (0x8A::nat)
                      \<or> e = CHR 0xA8 \<or> e = CHR 0xA9 \<or> e = CHR 0xAF) then 3
             else if c = CHR 0xE2 \<and> d = CHR 0x81 \<and> e = CHR 0x9F then 3
             else if c = CHR 0xE3 \<and> d = CHR 0x80 \<and> e = CHR 0x80 then 3
             else 0
         | _ \<Rightarrow> 0))"

text \<open>
  \<open>TrimSpace_empty s\<close> is the test \<open>strings.TrimSpace(s) == ""\<close>: the trimmed string is
  empty exactly when the scan from the left consumes the whole string, that is when
  \<open>s\<close> is a sequence of white-space runes.
\<close>

fun TrimSpace_empty :: "string \<Rightarrow> bool" where
  "TrimSpace_empty [] = True"
| "TrimSpace_empty (c # cs) =
     (let w = spaceRuneWidth (c # cs) in w \<noteq> 0 \<and> TrimSpace_empty (drop (w - 1) cs))"

subsection \<open>The query object\<close>

record recordQueryImplementation =
  hasID :: bool
  id' :: string
  hasIDList :: bool
  idList :: "string list"
  isTypeSet :: bool
  recordType :: string
  columns :: "string list"
  isCountOnly :: bool
  isSoftDeletedIncluded :: bool
  isLimitSet :: bool
  limit :: go_int
  isOffsetSet :: bool
  offset :: go_int
  isOrderBySet :: bool
  orderBy :: string
  payloadSearch :: "string list"
  payloadSearchNot :: "string list"

text \<open>
  \<open>NewRecordQuery\<close> names ten fields; the others (\<open>id\<close>, \<open>idList\<close>, \<open>isTypeSet\<close>,
  \<open>recordType\<close>, \<open>limit\<close>, \<open>offset\<close>, \<open>orderBy\<close>) get Go's zero values.
\<close>

definition NewRecordQuery :: recordQueryImplementation where
  "NewRecordQuery =
     \<lparr> hasID = False, id' = [], hasIDList = False, idList = [],
       isTypeSet = False, recordType = [], columns = [],
       isCountOnly = False, isSoftDeletedIncluded = False,
       isLimitSet = False, limit = 0, isOffsetSet = False, offset = 0,
       isOrderBySet = False, orderBy = [],
       payloadSearch = [], payloadSearchNot = [] \<rparr>"

definition SetColumns :: "string list \<Rightarrow> recordQueryImplementation \<Rightarrow> recordQueryImplementation" where
  "SetColumns cs rq = rq\<lparr>columns := cs\<rparr>"

definition GetColumns :: "recordQueryImplementation \<Rightarrow> string list" where
  "GetColumns rq = columns rq"

definition IsCountOnly :: "recordQueryImplementation \<Rightarrow> bool" where
  "IsCountOnly rq = isCountOnly rq"

definition SetCountOnly :: "bool \<Rightarrow> recordQueryImplementation \<Rightarrow> recordQueryImplementation" where
  "SetCountOnly countOnly rq = rq\<lparr>isCountOnly := countOnly\<rparr>"

definition IsIDSet :: "recordQueryImplementation \<Rightarrow> bool" where
  "IsIDSet rq = hasID rq"

definition GetID :: "recordQueryImplementation \<Rightarrow> string" where
  "GetID rq = id' rq"

definition SetID :: "string \<Rightarrow> recordQueryImplementation \<Rightarrow> recordQueryImplementation" where
  "SetID i rq =
     (let rq1 = (if i = [] then rq\<lparr>hasID := False\<rparr> else rq\<lparr>hasID := True\<rparr>)
      in rq1\<lparr>id' := i\<rparr>)"

definition IsIDListSet :: "recordQueryImplementation \<Rightarrow> bool" where
  "IsIDListSet rq = hasIDList rq"

definition GetIDList :: "recordQueryImplementation \<Rightarrow> string list" where
  "GetIDList rq = idList rq"

definition SetIDList :: "string list \<Rightarrow> recordQueryImplementation \<Rightarrow> recordQueryImplementation" where
  "SetIDList ids rq = rq\<lparr>hasIDList := True, idList := ids\<rparr>"

definition IsSoftDeletedIncluded :: "recordQueryImplementation \<Rightarrow> bool" where
  "IsSoftDeletedIncluded rq = isSoftDeletedIncluded rq"

definition SetSoftDeletedIncluded :: "bool \<Rightarrow> recordQueryImplementation \<Rightarrow> recordQueryImplementation" where
  "SetSoftDeletedIncluded b rq = rq\<lparr>isSoftDeletedIncluded := b\<rparr>"

definition IsLimitSet :: "recordQueryImplementation \<Rightarrow> bool" where
  "IsLimitSet rq = isLimitSet rq"

definition GetLimit :: "recordQueryImplementation \<Rightarrow> go_int" where
  "GetLimit rq = limit rq"

definition SetLimit :: "go_int \<Rightarrow> recordQueryImplementation \<Rightarrow> recordQueryImplementation" where
  "SetLimit n rq = rq\<lparr>isLimitSet := True, limit := n\<rparr>"

definition IsOffsetSet :: "recordQueryImplementation \<Rightarrow> bool" where
  "IsOffsetSet rq = isOffsetSet rq"

definition GetOffset :: "recordQueryImplementation \<Rightarrow> go_int" where
  "GetOffset rq = offset rq"

definition SetOffset :: "go_int \<Rightarrow> recordQueryImplementation \<Rightarrow> recordQueryImplementation" where
  "SetOffset n rq = rq\<lparr>isOffsetSet := True, offset := n\<rparr>"

definition IsOrderBySet :: "recordQueryImplementation \<Rightarrow> bool" where
  "IsOrderBySet rq = isOrderBySet rq"

definition GetOrderBy :: "recordQueryImplementation \<Rightarrow> string" where
  "GetOrderBy rq = orderBy rq"

definition SetOrderBy :: "string \<Rightarrow> recordQueryImplementation \<Rightarrow> recordQueryImplementation" where
  "SetOrderBy s rq = rq\<lparr>isOrderBySet := True, orderBy := s\<rparr>"

definition IsTypeSet :: "recordQueryImplementation \<Rightarrow> bool" where
  "IsTypeSet rq = isTypeSet rq"

definition GetType :: "recordQueryImplementation \<Rightarrow> string" where
  "GetType rq = recordType rq"

definition SetType :: "string \<Rightarrow> recordQueryImplementation \<Rightarrow> recordQueryImplementation" where
  "SetType t rq = rq\<lparr>isTypeSet := True, recordType := t\<rparr>"

definition AddPayloadSearch :: "string \<Rightarrow> recordQueryImplementation \<Rightarrow> recordQueryImplementation" where
  "AddPayloadSearch needle rq = rq\<lparr>payloadSearch := payloadSearch rq @ [needle]\<rparr>"

definition GetPayloadSearch :: "recordQueryImplementation \<Rightarrow> string list" where
  "GetPayloadSearch rq = payloadSearch rq"

definition AddPayloadSearchNot :: "string \<Rightarrow> recordQueryImplementation \<Rightarrow> recordQueryImplementation" where
  "AddPayloadSearchNot needle rq = rq\<lparr>payloadSearchNot := payloadSearchNot rq @ [needle]\<rparr>"

definition GetPayloadSearchNot :: "recordQueryImplementation \<Rightarrow> string list" where
  "GetPayloadSearchNot rq = payloadSearchNot rq"

subsection \<open>Validation\<close>

definition Validate :: "recordQueryImplementation \<Rightarrow> error option" where
  "Validate rq =
     (if IsIDSet rq \<and> GetID rq = [] then Some (errors_New ''id is required'')
      else if IsIDListSet rq \<and> length (GetIDList rq) = 0 then
        Some (errors_New ''id list is required'')
      else
        let filtered = filter (\<lambda>i. \<not> TrimSpace_empty i) (GetIDList rq) in
        if IsIDListSet rq \<and> length filtered \<noteq> length (GetIDList rq) then
          Some (errors_New ''id list contains empty strings'')
        else if IsTypeSet rq \<and> GetType rq = [] then Some (errors_New ''type is required'')
        else None)"

subsection \<open>The statement under construction\<close>

text \<open>
  Modelled from the spec: the column-name constants \<open>COLUMN_ID\<close>, \<open>COLUMN_RECORD_TYPE\<close>
  and \<open>COLUMN_SOFT_DELETED_AT\<close> are declared in a file of the package that is not among
  the sources. The spec lists the id, type and soft-delete columns as three columns of
  the table; only which column a predicate names matters here, so the constants are
  three constructors and their spelling is left open.
\<close>

datatype column = COLUMN_ID | COLUMN_RECORD_TYPE | COLUMN_SOFT_DELETED_AT

text \<open>\<open>goqu.C\<close> names a column, \<open>goqu.I\<close> parses an identifier given as text.\<close>

datatype ident = C column | I string

datatype expr =
    Eq ident string
  | In ident "string list"
  | Gt ident string
  | Like ident string
  | NotLike ident string
  | Or "expr list"
  | And "expr list"

datatype ordered = Asc ident | Desc ident

text \<open>
  The direction constants \<open>sb.ASC\<close> and \<open>sb.DESC\<close> of the package \<open>sb\<close>: two different
  words, also when compared by \<open>strings.EqualFold\<close>.
\<close>

datatype direction = ASC | DESC

text \<open>
  A \<open>goqu.SelectDataset\<close> is kept as the clauses the code has asked the builder for: the
  dialect and table it started from, the expressions given to \<open>Where\<close> in the order of
  the calls (the builder joins them with AND), the bound given to \<open>Limit\<close>, the count
  given to \<open>Offset\<close> and the expressions given to \<open>Order\<close>. The builder's \<open>Limit\<close> sets
  the limit only for a bound greater than 0 and clears it for the bound 0; \<open>Offset\<close>
  stores the count it is given, and \<open>Order\<close> replaces the order. How the builder
  renders these clauses as SQL text is not modelled.
\<close>

record dataset =
  ds_dialect :: string
  ds_from :: string
  ds_where :: "expr list"
  ds_limit :: "go_uint option"
  ds_offset :: "go_uint option"
  ds_order :: "ordered list"

definition From :: "string \<Rightarrow> string \<Rightarrow> dataset" where
  "From driver table =
     \<lparr> ds_dialect = driver, ds_from = table, ds_where = [],
       ds_limit = None, ds_offset = None, ds_order = [] \<rparr>"

definition Where :: "dataset \<Rightarrow> expr \<Rightarrow> dataset" where
  "Where q e = q\<lparr>ds_where := ds_where q @ [e]\<rparr>"

definition Limit :: "dataset \<Rightarrow> go_uint \<Rightarrow> dataset" where
  "Limit q n = (if 0 < n then q\<lparr>ds_limit := Some n\<rparr> else q\<lparr>ds_limit := None\<rparr>)"

definition Offset :: "dataset \<Rightarrow> go_uint \<Rightarrow> dataset" where
  "Offset q n = q\<lparr>ds_offset := Some n\<rparr>"

definition Order :: "dataset \<Rightarrow> ordered \<Rightarrow> dataset" where
  "Order q x = q\<lparr>ds_order := [x]\<rparr>"

subsection \<open>Compilation\<close>

text \<open>
  \<open>payloadConds\<close> is the slice \<open>conds\<close> that \<open>applyPayloadWhere\<close> collects: one OR group
  for the strings to search for when there are any, then one NOT LIKE per string that
  must not occur.
\<close>

definition payloadConds :: "recordQueryImplementation \<Rightarrow> expr list" where
  "payloadConds rq =
     (let conds = [];
          conds = (if length (payloadSearch rq) > 0
                   then conds @ [Or (map (\<lambda>v. Like (I ''payload'') (''%'' @ v @ ''%'')) (payloadSearch rq))]
                   else conds);
          conds = (if length (payloadSearchNot rq) > 0
                   then conds @ map (\<lambda>v. NotLike (I ''payload'') (''%'' @ v @ ''%'')) (payloadSearchNot rq)
                   else conds)
      in conds)"

definition applyPayloadWhere :: "recordQueryImplementation \<Rightarrow> dataset \<Rightarrow> dataset" where
  "applyPayloadWhere rq q =
     (let conds = payloadConds rq
      in if length conds = 0 then q else Where q (And conds))"

text \<open>\<open>applyPagination\<close> may call \<open>SetLimit\<close> on its receiver, so it returns the query too.\<close>

definition applyPagination ::
  "recordQueryImplementation \<Rightarrow> dataset \<Rightarrow> recordQueryImplementation \<times> dataset" where
  "applyPagination rq q =
     (let rq = (if IsOffsetSet rq \<and> \<not> IsLimitSet rq then SetLimit 10 rq else rq) in
      if IsCountOnly rq then (rq, q)
      else
        let q = (if IsLimitSet rq then Limit q (to_uint (GetLimit rq)) else q);
            q = (if IsOffsetSet rq then Offset q (to_uint (GetOffset rq)) else q)
        in (rq, q))"

definition applyOrderBy :: "recordQueryImplementation \<Rightarrow> dataset \<Rightarrow> direction \<Rightarrow> dataset" where
  "applyOrderBy rq q defaultOrder =
     (if \<not> IsOrderBySet rq then q
      else if defaultOrder = ASC then Order q (Asc (I (GetOrderBy rq)))
      else Order q (Desc (I (GetOrderBy rq))))"

definition selectedColumns :: "recordQueryImplementation \<Rightarrow> string list" where
  "selectedColumns rq = foldl (\<lambda>cols c. cols @ [c]) [] (GetColumns rq)"

definition softDeletedExpr :: "string \<Rightarrow> expr" where
  "softDeletedExpr now = Gt (C COLUMN_SOFT_DELETED_AT) now"

text \<open>
  \<open>ToSelectDataset now driver table rq\<close> returns the query as the call leaves it, and either
  the error or the statement with the selected columns.
\<close>

definition ToSelectDataset ::
  "string \<Rightarrow> string \<Rightarrow> string \<Rightarrow> recordQueryImplementation
     \<Rightarrow> recordQueryImplementation \<times> (error + dataset \<times> string list)" where
  "ToSelectDataset now driver table rq =
     (case Validate rq of
        Some err \<Rightarrow> (rq, Inl err)
      | None \<Rightarrow>
          let q = From driver table in
          if IsSoftDeletedIncluded rq then (rq, Inr (q, []))
          else
            let q = (if IsIDSet rq then Where q (Eq (C COLUMN_ID) (GetID rq)) else q);
                q = (if IsIDListSet rq then
                       (let ids = filter (\<lambda>v. \<not> TrimSpace_empty v) (GetIDList rq) in
                        if length ids > 0 then Where q (In (C COLUMN_ID) ids) else q)
                     else q);
                q = applyPayloadWhere rq q;
                (rq, q) = applyPagination rq q;
                q = applyOrderBy rq q DESC;
                cols = selectedColumns rq;
                q = (if IsTypeSet rq then Where q (Eq (C COLUMN_RECORD_TYPE) (GetType rq)) else q)
            in (rq, Inr (Where q (softDeletedExpr now), cols)))"

subsection \<open>Queries built through the public interface\<close>

text \<open>
  The struct is not exported: outside the package a query is obtained from
  \<open>NewRecordQuery\<close> and changed only by the methods of \<open>RecordQueryInterface\<close>. The getters
  and \<open>Validate\<close> assign nothing; the methods that do are the calls below.
\<close>

datatype call =
    CallSetColumns "string list"
  | CallSetCountOnly bool
  | CallSetID string
  | CallSetIDList "string list"
  | CallSetSoftDeletedIncluded bool
  | CallSetLimit go_int
  | CallSetOffset go_int
  | CallSetOrderBy string
  | CallSetType string
  | CallAddPayloadSearch string
  | CallAddPayloadSearchNot string
  | CallToSelectDataset string string string

fun perform :: "recordQueryImplementation \<Rightarrow> call \<Rightarrow> recordQueryImplementation" where
  "perform rq (CallSetColumns cs) = SetColumns cs rq"
| "perform rq (CallSetCountOnly b) = SetCountOnly b rq"
| "perform rq (CallSetID i) = SetID i rq"
| "perform rq (CallSetIDList ids) = SetIDList ids rq"
| "perform rq (CallSetSoftDeletedIncluded b) = SetSoftDeletedIncluded b rq"
| "perform rq (CallSetLimit n) = SetLimit n rq"
| "perform rq (CallSetOffset n) = SetOffset n rq"
| "perform rq (CallSetOrderBy s) = SetOrderBy s rq"
| "perform rq (CallSetType t) = SetType t rq"
| "perform rq (CallAddPayloadSearch s) = AddPayloadSearch s rq"
| "perform rq (CallAddPayloadSearchNot s) = AddPayloadSearchNot s rq"
| "perform rq (CallToSelectDataset now driver table) = fst (ToSelectDataset now driver table rq)"

fun isSetIDCall :: "call \<Rightarrow> bool" where
  "isSetIDCall (CallSetID i) = True"
| "isSetIDCall _ = False"

definition built :: "call list \<Rightarrow> recordQueryImplementation" where
  "built cs = foldl perform NewRecordQuery cs"

subsection \<open>Rows and what a predicate keeps\<close>

text \<open>
  A row gives each column its text. \<open>holds like r e\<close> reads a predicate on a row:
  equality, membership, the order of the stored text (date-time strings of one
  format are ordered as their instants are), and the engine's LIKE operator, which is
  the argument \<open>like\<close> (the text first, the pattern second).
\<close>

type_synonym row = "ident \<Rightarrow> string"

fun holds :: "(string \<Rightarrow> string \<Rightarrow> bool) \<Rightarrow> row \<Rightarrow> expr \<Rightarrow> bool" where
  "holds like r (Eq c v) = (r c = v)"
| "holds like r (In c vs) = (r c \<in> set vs)"
| "holds like r (Gt c v) = (v < r c)"
| "holds like r (Like c p) = like (r c) p"
| "holds like r (NotLike c p) = (\<not> like (r c) p)"
| "holds like r (Or es) = list_ex (holds like r) es"
| "holds like r (And es) = list_all (holds like r) es"

text \<open>A row is returned by a statement when it passes every expression given to \<open>Where\<close>.\<close>

definition keeps :: "(string \<Rightarrow> string \<Rightarrow> bool) \<Rightarrow> dataset \<Rightarrow> row \<Rightarrow> bool" where
  "keeps like q r = list_all (holds like r) (ds_where q)"

text \<open>
  The LIKE operator without an escape character, comparing bytes: \<open>%\<close> stands for any
  text, \<open>_\<close> for one byte. It serves as the engine's operator in the examples.
\<close>

fun like_match :: "string \<Rightarrow> string \<Rightarrow> bool" where
  "like_match [] [] = True"
| "like_match (c # s) [] = False"
| "like_match [] (p # ps) = (p = CHR ''%'' \<and> like_match [] ps)"
| "like_match (c # s) (p # ps) =
     (if p = CHR ''%'' then like_match (c # s) ps \<or> like_match s (p # ps)
      else (p = CHR ''_'' \<or> p = c) \<and> like_match s ps)"

text \<open>
  The spec's words for the soft-delete state: a record is soft-deleted iff its
  \<open>softDeletedAt\<close> is strictly less than now.
\<close>

definition spec_soft_deleted :: "string \<Rightarrow> row \<Rightarrow> bool" where
  "spec_soft_deleted now r \<longleftrightarrow> r (C COLUMN_SOFT_DELETED_AT) < now"

text \<open>The expression that \<open>ToSelectDataset\<close> adds for the ID filter: \<open>id = value\<close>.\<close>

fun isIDPredicate :: "expr \<Rightarrow> bool" where
  "isIDPredicate (Eq c v) = (c = C COLUMN_ID)"
| "isIDPredicate _ = False"

fun isTypePredicate :: "expr \<Rightarrow> bool" where
  "isTypePredicate (Eq c v) = (c = C COLUMN_RECORD_TYPE)"
| "isTypePredicate _ = False"

section \<open>Facts about the embedding\<close>

subsection \<open>Getters, setters and the helpers of the compilation\<close>

lemmas getters = IsIDSet_def GetID_def IsIDListSet_def GetIDList_def IsTypeSet_def GetType_def
  IsCountOnly_def IsSoftDeletedIncluded_def IsLimitSet_def GetLimit_def IsOffsetSet_def GetOffset_def
  IsOrderBySet_def GetOrderBy_def GetColumns_def GetPayloadSearch_def GetPayloadSearchNot_def

lemmas setters = SetColumns_def SetCountOnly_def SetID_def SetIDList_def SetSoftDeletedIncluded_def
  SetLimit_def SetOffset_def SetOrderBy_def SetType_def AddPayloadSearch_def AddPayloadSearchNot_def

lemma to_uint_id: "to_uint n = n"
  by (simp add: to_uint_def)

lemma foldl_snoc: "foldl (\<lambda>cols c. cols @ [c]) acc xs = acc @ xs"
  by (induction xs arbitrary: acc) simp_all

lemma selectedColumns_eq: "selectedColumns rq = columns rq"
  by (simp add: selectedColumns_def GetColumns_def foldl_snoc)

lemma payloadConds_eq:
  "payloadConds rq =
     (if payloadSearch rq = [] then []
      else [Or (map (\<lambda>v. Like (I ''payload'') (''%'' @ v @ ''%'')) (payloadSearch rq))])
     @ map (\<lambda>v. NotLike (I ''payload'') (''%'' @ v @ ''%'')) (payloadSearchNot rq)"
  by (simp add: payloadConds_def)

lemma applyPayloadWhere_eq:
  "applyPayloadWhere rq q =
     (if payloadConds rq = [] then q else Where q (And (payloadConds rq)))"
  by (simp add: applyPayloadWhere_def Let_def)

lemma applyPagination_fst:
  "fst (applyPagination rq q) = (if isOffsetSet rq \<and> \<not> isLimitSet rq then SetLimit 10 rq else rq)"
  by (simp add: applyPagination_def getters Let_def SetLimit_def)

lemma applyPagination_snd:
  "snd (applyPagination rq q) =
     (if isCountOnly rq then q
      else q\<lparr>ds_limit := (if isLimitSet rq
                           then (if to_uint (limit rq) \<noteq> 0 then Some (to_uint (limit rq)) else None)
                           else if isOffsetSet rq then Some 10 else ds_limit q),
              ds_offset := (if isOffsetSet rq then Some (to_uint (offset rq)) else ds_offset q)\<rparr>)"
  by (simp add: applyPagination_def getters Let_def SetLimit_def Limit_def Offset_def to_uint_id
      word_greater_zero_iff)

subsection \<open>The clauses after each step\<close>

lemma Where_fields [simp]:
  "ds_where (Where q e) = ds_where q @ [e]"
  "ds_limit (Where q e) = ds_limit q"
  "ds_offset (Where q e) = ds_offset q"
  "ds_order (Where q e) = ds_order q"
  "ds_dialect (Where q e) = ds_dialect q"
  "ds_from (Where q e) = ds_from q"
  by (simp_all add: Where_def)

lemma From_fields [simp]:
  "ds_where (From d t) = []"
  "ds_limit (From d t) = None"
  "ds_offset (From d t) = None"
  "ds_order (From d t) = []"
  "ds_dialect (From d t) = d"
  "ds_from (From d t) = t"
  by (simp_all add: From_def)

lemma applyPayloadWhere_fields [simp]:
  "ds_where (applyPayloadWhere rq q) =
     ds_where q @ (if payloadConds rq = [] then [] else [And (payloadConds rq)])"
  "ds_limit (applyPayloadWhere rq q) = ds_limit q"
  "ds_offset (applyPayloadWhere rq q) = ds_offset q"
  "ds_order (applyPayloadWhere rq q) = ds_order q"
  "ds_dialect (applyPayloadWhere rq q) = ds_dialect q"
  "ds_from (applyPayloadWhere rq q) = ds_from q"
  by (simp_all add: applyPayloadWhere_eq)

lemma applyPagination_fields [simp]:
  "ds_where (snd (applyPagination rq q)) = ds_where q"
  "ds_limit (snd (applyPagination rq q)) =
     (if isCountOnly rq then ds_limit q
      else if isLimitSet rq
           then (if to_uint (limit rq) \<noteq> 0 then Some (to_uint (limit rq)) else None)
      else if isOffsetSet rq then Some 10 else ds_limit q)"
  "ds_offset (snd (applyPagination rq q)) =
     (if isCountOnly rq \<or> \<not> isOffsetSet rq then ds_offset q else Some (to_uint (offset rq)))"
  "ds_order (snd (applyPagination rq q)) = ds_order q"
  "ds_dialect (snd (applyPagination rq q)) = ds_dialect q"
  "ds_from (snd (applyPagination rq q)) = ds_from q"
  by (simp_all add: applyPagination_snd)

lemma applyOrderBy_fields [simp]:
  "ds_where (applyOrderBy rq q d) = ds_where q"
  "ds_limit (applyOrderBy rq q d) = ds_limit q"
  "ds_offset (applyOrderBy rq q d) = ds_offset q"
  "ds_order (applyOrderBy rq q DESC) = (if isOrderBySet rq then [Desc (I (orderBy rq))] else ds_order q)"
  "ds_dialect (applyOrderBy rq q d) = ds_dialect q"
  "ds_from (applyOrderBy rq q d) = ds_from q"
  by (simp_all add: applyOrderBy_def Order_def getters)

lemma if_Where_fields [simp]:
  "ds_where (if b then Where q e else q) = ds_where q @ (if b then [e] else [])"
  "ds_limit (if b then Where q e else q) = ds_limit q"
  "ds_offset (if b then Where q e else q) = ds_offset q"
  "ds_order (if b then Where q e else q) = ds_order q"
  "ds_dialect (if b then Where q e else q) = ds_dialect q"
  "ds_from (if b then Where q e else q) = ds_from q"
  by simp_all

lemma if_if_Where_fields [simp]:
  "ds_where (if b then (if c then Where q e else q) else q) = ds_where q @ (if b \<and> c then [e] else [])"
  "ds_limit (if b then (if c then Where q e else q) else q) = ds_limit q"
  "ds_offset (if b then (if c then Where q e else q) else q) = ds_offset q"
  "ds_order (if b then (if c then Where q e else q) else q) = ds_order q"
  "ds_dialect (if b then (if c then Where q e else q) else q) = ds_dialect q"
  "ds_from (if b then (if c then Where q e else q) else q) = ds_from q"
  by simp_all

lemma applyPagination_keeps [simp]:
  "isTypeSet (fst (applyPagination rq q)) = isTypeSet rq"
  "recordType (fst (applyPagination rq q)) = recordType rq"
  "isOrderBySet (fst (applyPagination rq q)) = isOrderBySet rq"
  "orderBy (fst (applyPagination rq q)) = orderBy rq"
  "columns (fst (applyPagination rq q)) = columns rq"
  by (simp_all add: applyPagination_fst SetLimit_def)

subsection \<open>The three ways \<open>ToSelectDataset\<close> returns\<close>

lemma ToSelectDataset_invalid:
  "Validate rq = Some e \<Longrightarrow> ToSelectDataset now driver table rq = (rq, Inl e)"
  by (simp add: ToSelectDataset_def)

lemma ToSelectDataset_override:
  "Validate rq = None \<Longrightarrow> isSoftDeletedIncluded rq \<Longrightarrow>
   ToSelectDataset now driver table rq = (rq, Inr (From driver table, []))"
  by (simp add: ToSelectDataset_def IsSoftDeletedIncluded_def)

lemma ToSelectDataset_fst:
  "fst (ToSelectDataset now driver table rq) =
     (if Validate rq = None \<and> \<not> isSoftDeletedIncluded rq \<and> isOffsetSet rq \<and> \<not> isLimitSet rq
      then SetLimit 10 rq else rq)"
  by (cases "Validate rq")
     (simp_all add: ToSelectDataset_def IsSoftDeletedIncluded_def Let_def split_beta applyPagination_fst)

lemma ToSelectDataset_default:
  assumes "Validate rq = None" and "\<not> isSoftDeletedIncluded rq"
  shows "\<exists>q. snd (ToSelectDataset now driver table rq) = Inr (q, columns rq) \<and>
     ds_where q =
       (if hasID rq then [Eq (C COLUMN_ID) (id' rq)] else []) @
       (if hasIDList rq \<and> filter (\<lambda>v. \<not> TrimSpace_empty v) (idList rq) \<noteq> []
        then [In (C COLUMN_ID) (filter (\<lambda>v. \<not> TrimSpace_empty v) (idList rq))] else []) @
       (if payloadConds rq = [] then [] else [And (payloadConds rq)]) @
       (if isTypeSet rq then [Eq (C COLUMN_RECORD_TYPE) (recordType rq)] else []) @
       [softDeletedExpr now] \<and>
     ds_limit q =
       (if isCountOnly rq then None
        else if isLimitSet rq
             then (if to_uint (limit rq) \<noteq> 0 then Some (to_uint (limit rq)) else None)
        else if isOffsetSet rq then Some 10 else None) \<and>
     ds_offset q = (if isCountOnly rq \<or> \<not> isOffsetSet rq then None else Some (to_uint (offset rq))) \<and>
     ds_order q = (if isOrderBySet rq then [Desc (I (orderBy rq))] else []) \<and>
     ds_dialect q = driver \<and> ds_from q = table"
  using assms
  by (simp add: ToSelectDataset_def Let_def split_beta selectedColumns_eq getters
      split del: if_split cong: if_cong)

lemma ToSelectDataset_cases:
  obtains (invalid) e where "Validate rq = Some e" "ToSelectDataset now driver table rq = (rq, Inl e)"
  | (override) "Validate rq = None" "isSoftDeletedIncluded rq"
      "ToSelectDataset now driver table rq = (rq, Inr (From driver table, []))"
  | (default) "Validate rq = None" "\<not> isSoftDeletedIncluded rq"
  by (cases "Validate rq"; cases "isSoftDeletedIncluded rq")
     (auto simp: ToSelectDataset_invalid ToSelectDataset_override)

subsection \<open>Queries built through the interface\<close>

lemma perform_id_inv:
  "hasID rq \<longrightarrow> id' rq \<noteq> [] \<Longrightarrow> hasID (perform rq c) \<longrightarrow> id' (perform rq c) \<noteq> []"
  by (cases c) (simp_all add: setters ToSelectDataset_fst)

lemma built_snoc: "built (cs @ [c]) = perform (built cs) c"
  by (simp add: built_def)

lemma built_id_inv: "hasID (built cs) \<longrightarrow> id' (built cs) \<noteq> []"
proof (induction cs rule: rev_induct)
  case Nil
  show ?case by (simp add: built_def NewRecordQuery_def)
next
  case (snoc c cs)
  then show ?case unfolding built_snoc by (rule perform_id_inv)
qed

lemma perform_hasID:
  "\<not> isSetIDCall c \<Longrightarrow> hasID (perform rq c) = hasID rq"
  by (cases c) (simp_all add: setters ToSelectDataset_fst)

lemma foldl_perform_hasID:
  "\<not> list_ex isSetIDCall cs \<Longrightarrow> hasID (foldl perform rq cs) = hasID rq"
  by (induction cs arbitrary: rq) (simp_all add: perform_hasID)

lemma Validate_id_list_empty:
  "hasID rq \<longrightarrow> id' rq \<noteq> [] \<Longrightarrow> hasIDList rq \<Longrightarrow> idList rq = [] \<Longrightarrow>
   Validate rq = Some (errors_New ''id list is required'')"
  by (auto simp: Validate_def getters)

lemma filter_length_neq:
  "x \<in> set xs \<Longrightarrow> \<not> P x \<Longrightarrow> length (filter P xs) \<noteq> length xs"
  using length_filter_less [of x xs P] by simp

lemma Validate_id_list_blank:
  assumes "hasID rq \<longrightarrow> id' rq \<noteq> []" and "hasIDList rq" and "i \<in> set (idList rq)"
    and "TrimSpace_empty i"
  shows "Validate rq = Some (errors_New ''id list contains empty strings'')"
proof -
  from assms(3) have ne: "idList rq \<noteq> []" by auto
  from assms(3,4) have
    "length (filter (\<lambda>i. \<not> TrimSpace_empty i) (idList rq)) \<noteq> length (idList rq)"
    by (intro filter_length_neq [of i]) simp_all
  with assms(1,2) ne show ?thesis
    by (simp add: Validate_def getters)
qed

lemma ToSelectDataset_id_predicate:
  assumes "ToSelectDataset now driver table rq = (rq', Inr (q, cols))"
  shows "list_ex isIDPredicate (ds_where q) \<longleftrightarrow> hasID rq \<and> \<not> isSoftDeletedIncluded rq"
proof (cases rule: ToSelectDataset_cases [of rq now driver table])
  case (invalid e)
  with assms show ?thesis by simp
next
  case override
  with assms show ?thesis by auto
next
  case default
  from ToSelectDataset_default [OF default, of now driver table] assms
  obtain q0 where "q = q0" and
    "ds_where q0 =
       (if hasID rq then [Eq (C COLUMN_ID) (id' rq)] else []) @
       (if hasIDList rq \<and> filter (\<lambda>v. \<not> TrimSpace_empty v) (idList rq) \<noteq> []
        then [In (C COLUMN_ID) (filter (\<lambda>v. \<not> TrimSpace_empty v) (idList rq))] else []) @
       (if payloadConds rq = [] then [] else [And (payloadConds rq)]) @
       (if isTypeSet rq then [Eq (C COLUMN_RECORD_TYPE) (recordType rq)] else []) @
       [softDeletedExpr now]"
    by auto
  with default show ?thesis by (simp add: softDeletedExpr_def)
qed

lemmas eval_defs = ToSelectDataset_def Validate_def getters setters NewRecordQuery_def
  applyPayloadWhere_def payloadConds_def applyPagination_def applyOrderBy_def
  selectedColumns_def softDeletedExpr_def From_def Where_def Limit_def Offset_def Order_def
  to_uint_id asciiSpace_def Let_def

lemmas built_eval = built_def eval_defs

section \<open>The claims\<close>

subsection \<open>C1: the soft-delete override and the other filters\<close>

text \<open>
  C1 says that a valid query that asks for soft-deleted records and has a type filter
  still compiles to a statement with the predicate \<open>type = value\<close>, the override
  dropping the soft-delete predicate only. \<open>ToSelectDataset\<close> tests the override right
  after \<open>From\<close> and returns there (lemma \<open>ToSelectDataset_override\<close>): on the query of the
  README's own example, \<open>SetType("person").SetSoftDeletedIncluded(true)\<close>, which
  validates and has its type set, the statement is the bare \<open>From driver table\<close>, with
  no type predicate, while the same query without the override carries it.
\<close>

theorem C1_override_drops_type_filter:
  "Validate (SetSoftDeletedIncluded True (SetType ''person'' NewRecordQuery)) = None \<and>
   IsTypeSet (SetSoftDeletedIncluded True (SetType ''person'' NewRecordQuery)) \<and>
   ToSelectDataset now driver table (SetSoftDeletedIncluded True (SetType ''person'' NewRecordQuery))
     = (SetSoftDeletedIncluded True (SetType ''person'' NewRecordQuery), Inr (From driver table, [])) \<and>
   \<not> list_ex isTypePredicate (ds_where (From driver table)) \<and>
   snd (ToSelectDataset now driver table (SetType ''person'' NewRecordQuery))
     = Inr (Where (Where (From driver table) (Eq (C COLUMN_RECORD_TYPE) ''person''))
              (softDeletedExpr now), [])"
  by (simp add: eval_defs)

subsection \<open>C2: an ID list of blank entries only\<close>

text \<open>
  C2 says that a query whose ID list is non-empty and holds blank entries only passes
  \<open>Validate\<close> and compiles with the filter as a no-op. \<open>Validate\<close> compares the length of
  the list with the length of its non-blank part, so every list with a blank entry is
  refused (lemma \<open>Validate_id_list_blank\<close>), and \<open>ToSelectDataset\<close> returns that error: here
  on the list of an empty string and a string of two spaces.
\<close>

theorem C2_blank_id_list_rejected:
  "Validate (SetIDList ['''', ''  ''] NewRecordQuery)
     = Some (errors_New ''id list contains empty strings'') \<and>
   ToSelectDataset now driver table (SetIDList ['''', ''  ''] NewRecordQuery)
     = (SetIDList ['''', ''  ''] NewRecordQuery, Inl (errors_New ''id list contains empty strings''))"
  by (simp add: eval_defs)

subsection \<open>C3: the soft-delete predicate and the row deleted "now"\<close>

text \<open>
  The claim as written fails at the boundary. With now = 2024-01-01 00:00:00, the
  query without filters compiles to the statement whose only predicate is
  \<open>softDeletedExpr now\<close>; a row whose soft-delete time equals now is not soft-deleted in
  the spec's words (its time is not strictly less than now), and the statement does
  not keep it.
\<close>

theorem C3_boundary_counterexample:
  "ToSelectDataset ''2024-01-01 00:00:00'' ''sqlite'' ''records'' NewRecordQuery
     = (NewRecordQuery,
        Inr (Where (From ''sqlite'' ''records'') (softDeletedExpr ''2024-01-01 00:00:00''), [])) \<and>
   \<not> spec_soft_deleted ''2024-01-01 00:00:00'' (\<lambda>c. ''2024-01-01 00:00:00'') \<and>
   \<not> keeps like_match
       (Where (From ''sqlite'' ''records'') (softDeletedExpr ''2024-01-01 00:00:00''))
       (\<lambda>c. ''2024-01-01 00:00:00'')"
  by (simp add: eval_defs spec_soft_deleted_def keeps_def)

text \<open>
  C3, amended: every statement compiled without the override ends with the predicate
  \<open>soft_deleted_at > now\<close>. A row passes it iff its soft-delete time is strictly after
  now, that is iff the row is not soft-deleted in the spec's words and its time is not
  now itself; a row the statement keeps has its time after now, and for a query with
  no other filter the statement keeps exactly those rows.
\<close>

theorem C3_soft_delete_predicate:
  assumes "ToSelectDataset now driver table rq = (rq', Inr (q, cols))"
    and "\<not> IsSoftDeletedIncluded rq"
  shows "ds_where q \<noteq> [] \<and> last (ds_where q) = Gt (C COLUMN_SOFT_DELETED_AT) now \<and>
    (holds like r (last (ds_where q)) \<longleftrightarrow> now < r (C COLUMN_SOFT_DELETED_AT)) \<and>
    (holds like r (last (ds_where q)) \<longleftrightarrow>
       \<not> spec_soft_deleted now r \<and> r (C COLUMN_SOFT_DELETED_AT) \<noteq> now) \<and>
    (keeps like q r \<longrightarrow> now < r (C COLUMN_SOFT_DELETED_AT)) \<and>
    (\<not> IsIDSet rq \<and> \<not> IsIDListSet rq \<and> GetPayloadSearch rq = [] \<and> GetPayloadSearchNot rq = [] \<and>
     \<not> IsTypeSet rq \<longrightarrow> (keeps like q r \<longleftrightarrow> now < r (C COLUMN_SOFT_DELETED_AT)))"
proof (cases rule: ToSelectDataset_cases [of rq now driver table])
  case (invalid e)
  with assms show ?thesis by simp
next
  case override
  with assms show ?thesis by (simp add: getters)
next
  case default
  from ToSelectDataset_default [OF default, of now driver table] assms(1)
  have w: "ds_where q =
       (if hasID rq then [Eq (C COLUMN_ID) (id' rq)] else []) @
       (if hasIDList rq \<and> filter (\<lambda>v. \<not> TrimSpace_empty v) (idList rq) \<noteq> []
        then [In (C COLUMN_ID) (filter (\<lambda>v. \<not> TrimSpace_empty v) (idList rq))] else []) @
       (if payloadConds rq = [] then [] else [And (payloadConds rq)]) @
       (if isTypeSet rq then [Eq (C COLUMN_RECORD_TYPE) (recordType rq)] else []) @
       [softDeletedExpr now]"
    by auto
  have l: "ds_where q \<noteq> []" "last (ds_where q) = Gt (C COLUMN_SOFT_DELETED_AT) now"
    unfolding w by (simp_all add: softDeletedExpr_def)
  have k: "keeps like q r \<longrightarrow> now < r (C COLUMN_SOFT_DELETED_AT)"
    unfolding keeps_def w by (simp add: softDeletedExpr_def)
  have u: "\<not> IsIDSet rq \<and> \<not> IsIDListSet rq \<and> GetPayloadSearch rq = [] \<and> GetPayloadSearchNot rq = [] \<and>
     \<not> IsTypeSet rq \<longrightarrow> (keeps like q r \<longleftrightarrow> now < r (C COLUMN_SOFT_DELETED_AT))"
    unfolding keeps_def w by (simp add: softDeletedExpr_def getters payloadConds_eq)
  from l k u show ?thesis
    by (auto simp: spec_soft_deleted_def)
qed

theorem C3_soft_delete_predicate_witness:
  "ds_where (Where (From ''sqlite'' ''records'') (softDeletedExpr ''2024-01-01 00:00:00'')) \<noteq> [] \<and>
   last (ds_where (Where (From ''sqlite'' ''records'') (softDeletedExpr ''2024-01-01 00:00:00'')))
     = Gt (C COLUMN_SOFT_DELETED_AT) ''2024-01-01 00:00:00'' \<and>
   keeps like_match (Where (From ''sqlite'' ''records'') (softDeletedExpr ''2024-01-01 00:00:00''))
     (\<lambda>c. ''9999-12-31 23:59:59'') \<and>
   \<not> spec_soft_deleted ''2024-01-01 00:00:00'' (\<lambda>c. ''9999-12-31 23:59:59'')"
proof -
  have run: "ToSelectDataset ''2024-01-01 00:00:00'' ''sqlite'' ''records'' NewRecordQuery
     = (NewRecordQuery,
        Inr (Where (From ''sqlite'' ''records'') (softDeletedExpr ''2024-01-01 00:00:00''), []))"
    by (simp add: eval_defs)
  have nov: "\<not> IsSoftDeletedIncluded NewRecordQuery"
    by (simp add: getters NewRecordQuery_def)
  have flt: "\<not> IsIDSet NewRecordQuery \<and> \<not> IsIDListSet NewRecordQuery \<and>
    GetPayloadSearch NewRecordQuery = [] \<and> GetPayloadSearchNot NewRecordQuery = [] \<and>
    \<not> IsTypeSet NewRecordQuery"
    by (simp add: getters NewRecordQuery_def)
  have fut: "(''2024-01-01 00:00:00'' :: string) < ''9999-12-31 23:59:59''"
    by simp
  from C3_soft_delete_predicate [OF run nov, of like_match "\<lambda>c. ''9999-12-31 23:59:59''"] flt fut
  show ?thesis by (simp add: softDeletedExpr_def spec_soft_deleted_def)
qed

subsection \<open>C4: the two errors of a bad ID list\<close>

text \<open>
  C4: for every query built through the interface, \<open>Validate\<close> returns "id list is
  required" when the ID list is set to an empty list, "id list contains empty strings"
  when it is set to a list with at least one blank and at least one non-blank entry,
  and neither of the two when the ID list was never set. (The check of the ID comes
  first in \<open>Validate\<close>, and no built query fails it: lemma \<open>built_id_inv\<close>.)
\<close>

theorem C4_id_list_errors:
  "(IsIDListSet (built cs) \<and> GetIDList (built cs) = [] \<longrightarrow>
      Validate (built cs) = Some (errors_New ''id list is required'')) \<and>
   (IsIDListSet (built cs) \<and> list_ex TrimSpace_empty (GetIDList (built cs)) \<and>
    list_ex (\<lambda>i. \<not> TrimSpace_empty i) (GetIDList (built cs)) \<longrightarrow>
      Validate (built cs) = Some (errors_New ''id list contains empty strings'')) \<and>
   (\<not> IsIDListSet (built cs) \<longrightarrow>
      Validate (built cs) \<noteq> Some (errors_New ''id list is required'') \<and>
      Validate (built cs) \<noteq> Some (errors_New ''id list contains empty strings''))"
proof (intro conjI impI)
  assume "IsIDListSet (built cs) \<and> GetIDList (built cs) = []"
  with built_id_inv [of cs]
  show "Validate (built cs) = Some (errors_New ''id list is required'')"
    by (intro Validate_id_list_empty) (simp_all add: getters)
next
  assume a: "IsIDListSet (built cs) \<and> list_ex TrimSpace_empty (GetIDList (built cs)) \<and>
    list_ex (\<lambda>i. \<not> TrimSpace_empty i) (GetIDList (built cs))"
  then obtain i where "i \<in> set (idList (built cs))" "TrimSpace_empty i"
    by (auto simp: list_ex_iff getters)
  with a built_id_inv [of cs]
  show "Validate (built cs) = Some (errors_New ''id list contains empty strings'')"
    by (intro Validate_id_list_blank [of _ i]) (simp_all add: getters)
next
  assume "\<not> IsIDListSet (built cs)"
  then show "Validate (built cs) \<noteq> Some (errors_New ''id list is required'')"
    by (simp add: Validate_def getters)
next
  assume "\<not> IsIDListSet (built cs)"
  then show "Validate (built cs) \<noteq> Some (errors_New ''id list contains empty strings'')"
    by (simp add: Validate_def getters)
qed

theorem C4_id_list_errors_witness:
  "Validate (built [CallSetID ''rec_1'', CallSetID '''', CallSetIDList []])
     = Some (errors_New ''id list is required'') \<and>
   Validate (built [CallSetType '''', CallSetIDList [''a'', '''', ''b'']])
     = Some (errors_New ''id list contains empty strings'') \<and>
   Validate (built [CallSetType ''person''])
     \<noteq> Some (errors_New ''id list is required'') \<and>
   Validate (built [CallSetType ''person''])
     \<noteq> Some (errors_New ''id list contains empty strings'')"
proof -
  have a: "IsIDListSet (built [CallSetID ''rec_1'', CallSetID '''', CallSetIDList []]) \<and>
    GetIDList (built [CallSetID ''rec_1'', CallSetID '''', CallSetIDList []]) = []"
    by (simp add: built_eval)
  have b: "IsIDListSet (built [CallSetType '''', CallSetIDList [''a'', '''', ''b'']]) \<and>
    list_ex TrimSpace_empty (GetIDList (built [CallSetType '''', CallSetIDList [''a'', '''', ''b'']])) \<and>
    list_ex (\<lambda>i. \<not> TrimSpace_empty i)
      (GetIDList (built [CallSetType '''', CallSetIDList [''a'', '''', ''b'']]))"
    by (simp add: built_eval)
  have c: "\<not> IsIDListSet (built [CallSetType ''person''])"
    by (simp add: built_eval)
  from a b c
    C4_id_list_errors [of "[CallSetID ''rec_1'', CallSetID '''', CallSetIDList []]"]
    C4_id_list_errors [of "[CallSetType '''', CallSetIDList [''a'', '''', ''b'']]"]
    C4_id_list_errors [of "[CallSetType ''person'']"]
  show ?thesis by blast
qed

subsection \<open>C5: \<open>SetID("")\<close> clears the ID filter\<close>

text \<open>
  C5: on every query \<open>SetID("")\<close> leaves \<open>IsIDSet\<close> false, whatever was set before, and
  \<open>SetID\<close> with a non-empty string leaves it true. After \<open>SetID("")\<close> and any further
  calls other than \<open>SetID\<close>, the flag is still false and no statement that
  \<open>ToSelectDataset\<close> returns has a predicate \<open>id = value\<close>.
\<close>

theorem C5_set_id_empty_clears_filter:
  "\<not> IsIDSet (SetID [] rq) \<and>
   (i \<noteq> [] \<longrightarrow> IsIDSet (SetID i rq)) \<and>
   (\<not> list_ex isSetIDCall cs \<longrightarrow>
      \<not> IsIDSet (foldl perform (SetID [] rq) cs) \<and>
      (\<forall>now driver table rq' q cols.
         ToSelectDataset now driver table (foldl perform (SetID [] rq) cs) = (rq', Inr (q, cols))
           \<longrightarrow> \<not> list_ex isIDPredicate (ds_where q)))"
proof -
  have 1: "\<not> IsIDSet (SetID [] rq)" by (simp add: IsIDSet_def SetID_def)
  have 2: "i \<noteq> [] \<longrightarrow> IsIDSet (SetID i rq)" by (simp add: IsIDSet_def SetID_def)
  have 3: "\<not> hasID (foldl perform (SetID [] rq) cs)" if "\<not> list_ex isSetIDCall cs"
    using that by (simp add: foldl_perform_hasID SetID_def)
  from 1 2 3 show ?thesis
    by (auto simp: IsIDSet_def ToSelectDataset_id_predicate)
qed

theorem C5_set_id_empty_clears_filter_witness:
  "\<not> IsIDSet (SetID [] (SetID ''rec_1'' NewRecordQuery)) \<and>
   IsIDSet (SetID ''rec_2'' (SetID [] NewRecordQuery)) \<and>
   \<not> IsIDSet (foldl perform (SetID [] (SetID ''rec_1'' NewRecordQuery)) [CallSetType ''person'']) \<and>
   ToSelectDataset ''2024-01-01 00:00:00'' ''sqlite'' ''records''
       (foldl perform (SetID [] (SetID ''rec_1'' NewRecordQuery)) [CallSetType ''person''])
     = (SetType ''person'' (SetID [] (SetID ''rec_1'' NewRecordQuery)),
        Inr (Where (Where (From ''sqlite'' ''records'') (Eq (C COLUMN_RECORD_TYPE) ''person''))
               (softDeletedExpr ''2024-01-01 00:00:00''), [])) \<and>
   \<not> list_ex isIDPredicate
       (ds_where (Where (Where (From ''sqlite'' ''records'') (Eq (C COLUMN_RECORD_TYPE) ''person''))
               (softDeletedExpr ''2024-01-01 00:00:00'')))"
proof -
  have n: "\<not> list_ex isSetIDCall [CallSetType ''person'']" by simp
  have ne: "''rec_2'' \<noteq> []" by simp
  have run: "ToSelectDataset ''2024-01-01 00:00:00'' ''sqlite'' ''records''
       (foldl perform (SetID [] (SetID ''rec_1'' NewRecordQuery)) [CallSetType ''person''])
     = (SetType ''person'' (SetID [] (SetID ''rec_1'' NewRecordQuery)),
        Inr (Where (Where (From ''sqlite'' ''records'') (Eq (C COLUMN_RECORD_TYPE) ''person''))
               (softDeletedExpr ''2024-01-01 00:00:00''), []))"
    by (simp add: eval_defs)
  from n ne run
    C5_set_id_empty_clears_filter [of "SetID ''rec_1'' NewRecordQuery" "''rec_2''" "[CallSetType ''person'']"]
    C5_set_id_empty_clears_filter [of "NewRecordQuery" "''rec_2''" "[]"]
  show ?thesis by (simp add: IsIDSet_def SetID_def softDeletedExpr_def)
qed

subsection \<open>C6: an offset without a limit\<close>

text \<open>
  The claim as written fails for a limit explicitly set to 0. The query with offset 20
  and limit 0 is not count-only and validates; \<open>applyPagination\<close> passes the 0 to
  \<open>Limit\<close>, which clears the limit instead of setting it, so the compiled statement has
  offset 20 and no limit at all: the limit that was set is not used.
\<close>

theorem C6_zero_limit_counterexample:
  "\<not> IsCountOnly (SetLimit 0 (SetOffset 20 NewRecordQuery)) \<and>
   IsOffsetSet (SetLimit 0 (SetOffset 20 NewRecordQuery)) \<and>
   IsLimitSet (SetLimit 0 (SetOffset 20 NewRecordQuery)) \<and>
   GetLimit (SetLimit 0 (SetOffset 20 NewRecordQuery)) = 0 \<and>
   ToSelectDataset ''2024-01-01 00:00:00'' ''sqlite'' ''records''
       (SetLimit 0 (SetOffset 20 NewRecordQuery))
     = (SetLimit 0 (SetOffset 20 NewRecordQuery),
        Inr (Where (Offset (From ''sqlite'' ''records'') 20)
               (softDeletedExpr ''2024-01-01 00:00:00''), [])) \<and>
   ds_limit (Where (Offset (From ''sqlite'' ''records'') 20)
               (softDeletedExpr ''2024-01-01 00:00:00'')) = None \<and>
   ds_limit (Where (Offset (From ''sqlite'' ''records'') 20)
               (softDeletedExpr ''2024-01-01 00:00:00'')) \<noteq> Some 0"
  by (simp add: eval_defs)

text \<open>
  C6, amended: for every query that validates, does not ask for soft-deleted records
  and is not count-only, \<open>ToSelectDataset\<close> returns a statement, and in it: with an offset
  set and no limit set, the limit is 10 and the offset is the requested one; with a
  limit set to a value other than 0, the limit is that value; with a limit set to 0,
  there is no limit; and with a limit and an offset set, the offset is the requested
  one. Limit and offset are the \<open>uint\<close> conversions of the query's values, as the code
  passes them.
\<close>

theorem C6_default_limit_on_offset:
  "Validate rq = None \<and> \<not> IsSoftDeletedIncluded rq \<and> \<not> IsCountOnly rq \<longrightarrow>
     (\<exists>rq' q' cols. ToSelectDataset now driver table rq = (rq', Inr (q', cols)) \<and>
        (IsOffsetSet rq \<and> \<not> IsLimitSet rq \<longrightarrow>
           ds_limit q' = Some 10 \<and> ds_offset q' = Some (to_uint (GetOffset rq))) \<and>
        (IsLimitSet rq \<and> to_uint (GetLimit rq) \<noteq> 0 \<longrightarrow>
           ds_limit q' = Some (to_uint (GetLimit rq))) \<and>
        (IsLimitSet rq \<and> to_uint (GetLimit rq) = 0 \<longrightarrow> ds_limit q' = None) \<and>
        (IsLimitSet rq \<and> IsOffsetSet rq \<longrightarrow> ds_offset q' = Some (to_uint (GetOffset rq))))"
proof
  assume a: "Validate rq = None \<and> \<not> IsSoftDeletedIncluded rq \<and> \<not> IsCountOnly rq"
  then have "Validate rq = None" "\<not> isSoftDeletedIncluded rq" by (simp_all add: getters)
  from ToSelectDataset_default [OF this, of now driver table]
  obtain q' where r: "snd (ToSelectDataset now driver table rq) = Inr (q', columns rq)"
    and l: "ds_limit q' =
       (if isCountOnly rq then None
        else if isLimitSet rq
             then (if to_uint (limit rq) \<noteq> 0 then Some (to_uint (limit rq)) else None)
        else if isOffsetSet rq then Some 10 else None)"
    and o: "ds_offset q' =
       (if isCountOnly rq \<or> \<not> isOffsetSet rq then None else Some (to_uint (offset rq)))"
    by blast
  from a have nc: "\<not> isCountOnly rq" by (simp add: getters)
  have 1: "IsOffsetSet rq \<and> \<not> IsLimitSet rq \<longrightarrow>
           ds_limit q' = Some 10 \<and> ds_offset q' = Some (to_uint (GetOffset rq))"
    using nc by (simp add: l o getters)
  have 2: "IsLimitSet rq \<and> to_uint (GetLimit rq) \<noteq> 0 \<longrightarrow>
           ds_limit q' = Some (to_uint (GetLimit rq))"
    using nc by (simp add: l getters)
  have 3: "IsLimitSet rq \<and> to_uint (GetLimit rq) = 0 \<longrightarrow> ds_limit q' = None"
    using nc by (simp add: l getters)
  have 4: "IsLimitSet rq \<and> IsOffsetSet rq \<longrightarrow> ds_offset q' = Some (to_uint (GetOffset rq))"
    using nc by (simp add: o getters)
  from r have "ToSelectDataset now driver table rq
      = (fst (ToSelectDataset now driver table rq), Inr (q', columns rq))"
    by (cases "ToSelectDataset now driver table rq") simp
  with 1 2 3 4 show "\<exists>rq' q' cols. ToSelectDataset now driver table rq = (rq', Inr (q', cols)) \<and>
        (IsOffsetSet rq \<and> \<not> IsLimitSet rq \<longrightarrow>
           ds_limit q' = Some 10 \<and> ds_offset q' = Some (to_uint (GetOffset rq))) \<and>
        (IsLimitSet rq \<and> to_uint (GetLimit rq) \<noteq> 0 \<longrightarrow>
           ds_limit q' = Some (to_uint (GetLimit rq))) \<and>
        (IsLimitSet rq \<and> to_uint (GetLimit rq) = 0 \<longrightarrow> ds_limit q' = None) \<and>
        (IsLimitSet rq \<and> IsOffsetSet rq \<longrightarrow> ds_offset q' = Some (to_uint (GetOffset rq)))"
    by blast
qed

theorem C6_default_limit_on_offset_witness:
  "(\<exists>rq' q' cols.
      ToSelectDataset ''2024-01-01 00:00:00'' ''sqlite'' ''records'' (SetOffset 20 NewRecordQuery)
        = (rq', Inr (q', cols)) \<and> ds_limit q' = Some 10 \<and> ds_offset q' = Some 20) \<and>
   (\<exists>rq' q' cols.
      ToSelectDataset ''2024-01-01 00:00:00'' ''sqlite'' ''records''
          (SetLimit 3 (SetOffset 20 NewRecordQuery))
        = (rq', Inr (q', cols)) \<and> ds_limit q' = Some 3 \<and> ds_offset q' = Some 20) \<and>
   (\<exists>rq' q' cols.
      ToSelectDataset ''2024-01-01 00:00:00'' ''sqlite'' ''records''
          (SetLimit 0 (SetOffset 20 NewRecordQuery))
        = (rq', Inr (q', cols)) \<and> ds_limit q' = None \<and> ds_offset q' = Some 20)"
proof -
  let ?a = "SetOffset 20 NewRecordQuery"
  let ?b = "SetLimit 3 (SetOffset 20 NewRecordQuery)"
  let ?c = "SetLimit 0 (SetOffset 20 NewRecordQuery)"
  have a: "Validate ?a = None \<and> \<not> IsSoftDeletedIncluded ?a \<and> \<not> IsCountOnly ?a"
    "IsOffsetSet ?a \<and> \<not> IsLimitSet ?a" "to_uint (GetOffset ?a) = 20"
    by (simp_all add: Validate_def getters setters NewRecordQuery_def to_uint_id)
  have b: "Validate ?b = None \<and> \<not> IsSoftDeletedIncluded ?b \<and> \<not> IsCountOnly ?b"
    "IsLimitSet ?b \<and> to_uint (GetLimit ?b) \<noteq> 0" "IsLimitSet ?b \<and> IsOffsetSet ?b"
    "to_uint (GetLimit ?b) = 3" "to_uint (GetOffset ?b) = 20"
    by (simp_all add: Validate_def getters setters NewRecordQuery_def to_uint_id)
  have c: "Validate ?c = None \<and> \<not> IsSoftDeletedIncluded ?c \<and> \<not> IsCountOnly ?c"
    "IsLimitSet ?c \<and> to_uint (GetLimit ?c) = 0" "IsLimitSet ?c \<and> IsOffsetSet ?c"
    "to_uint (GetOffset ?c) = 20"
    by (simp_all add: Validate_def getters setters NewRecordQuery_def to_uint_id)
  from C6_default_limit_on_offset [of ?a "''2024-01-01 00:00:00''" "''sqlite''" "''records''"] a(1)
  obtain ra qa ca where
    "ToSelectDataset ''2024-01-01 00:00:00'' ''sqlite'' ''records'' ?a = (ra, Inr (qa, ca))"
    "IsOffsetSet ?a \<and> \<not> IsLimitSet ?a \<longrightarrow>
       ds_limit qa = Some 10 \<and> ds_offset qa = Some (to_uint (GetOffset ?a))"
    by blast
  with a(2,3) have A: "\<exists>rq' q' cols.
      ToSelectDataset ''2024-01-01 00:00:00'' ''sqlite'' ''records'' ?a
        = (rq', Inr (q', cols)) \<and> ds_limit q' = Some 10 \<and> ds_offset q' = Some 20"
    by auto
  from C6_default_limit_on_offset [of ?b "''2024-01-01 00:00:00''" "''sqlite''" "''records''"] b(1)
  obtain rb qb cb where
    "ToSelectDataset ''2024-01-01 00:00:00'' ''sqlite'' ''records'' ?b = (rb, Inr (qb, cb))"
    "IsLimitSet ?b \<and> to_uint (GetLimit ?b) \<noteq> 0 \<longrightarrow> ds_limit qb = Some (to_uint (GetLimit ?b))"
    "IsLimitSet ?b \<and> IsOffsetSet ?b \<longrightarrow> ds_offset qb = Some (to_uint (GetOffset ?b))"
    by blast
  with b(2,3,4,5) have B: "\<exists>rq' q' cols.
      ToSelectDataset ''2024-01-01 00:00:00'' ''sqlite'' ''records'' ?b
        = (rq', Inr (q', cols)) \<and> ds_limit q' = Some 3 \<and> ds_offset q' = Some 20"
    by auto
  from C6_default_limit_on_offset [of ?c "''2024-01-01 00:00:00''" "''sqlite''" "''records''"] c(1)
  obtain rc qc cc where
    "ToSelectDataset ''2024-01-01 00:00:00'' ''sqlite'' ''records'' ?c = (rc, Inr (qc, cc))"
    "IsLimitSet ?c \<and> to_uint (GetLimit ?c) = 0 \<longrightarrow> ds_limit qc = None"
    "IsLimitSet ?c \<and> IsOffsetSet ?c \<longrightarrow> ds_offset qc = Some (to_uint (GetOffset ?c))"
    by blast
  with c(2,3,4) have C: "\<exists>rq' q' cols.
      ToSelectDataset ''2024-01-01 00:00:00'' ''sqlite'' ''records'' ?c
        = (rq', Inr (q', cols)) \<and> ds_limit q' = None \<and> ds_offset q' = Some 20"
    by auto
  from A B C show ?thesis by (intro conjI)
qed

subsection \<open>C7: the payload conditions\<close>

text \<open>
  What \<open>applyPayloadWhere\<close> does, on every query: it collects one OR group of
  \<open>LIKE "%s%"\<close> over the strings to search for (when there is at least one) and one
  \<open>NOT LIKE "%s%"\<close> per string that must not occur, and adds the AND of all of them to
  the statement. With at least one string to search for, a row passes the new
  statement iff it passed the old one, its payload matches at least one of the LIKE
  patterns and none of the NOT LIKE patterns. The statement that \<open>ToSelectDataset\<close>
  returns holds that AND when the query validates and does not ask for soft-deleted
  records.
\<close>

lemma payload_conditions_default_path:
  "payloadConds rq =
     (if GetPayloadSearch rq = [] then []
      else [Or (map (\<lambda>v. Like (I ''payload'') (''%'' @ v @ ''%'')) (GetPayloadSearch rq))])
     @ map (\<lambda>v. NotLike (I ''payload'') (''%'' @ v @ ''%'')) (GetPayloadSearchNot rq) \<and>
   applyPayloadWhere rq q =
     (if GetPayloadSearch rq = [] \<and> GetPayloadSearchNot rq = [] then q
      else Where q (And (payloadConds rq))) \<and>
   (GetPayloadSearch rq \<noteq> [] \<longrightarrow>
      (keeps like (applyPayloadWhere rq q) r \<longleftrightarrow>
         keeps like q r \<and>
         list_ex (\<lambda>v. like (r (I ''payload'')) (''%'' @ v @ ''%'')) (GetPayloadSearch rq) \<and>
         list_all (\<lambda>v. \<not> like (r (I ''payload'')) (''%'' @ v @ ''%'')) (GetPayloadSearchNot rq))) \<and>
   (GetPayloadSearch rq \<noteq> [] \<and> Validate rq = None \<and> \<not> IsSoftDeletedIncluded rq \<longrightarrow>
      (\<exists>rq' q' cols. ToSelectDataset now driver table rq = (rq', Inr (q', cols)) \<and>
         And (payloadConds rq) \<in> set (ds_where q')))"
proof -
  have 1: "payloadConds rq =
     (if GetPayloadSearch rq = [] then []
      else [Or (map (\<lambda>v. Like (I ''payload'') (''%'' @ v @ ''%'')) (GetPayloadSearch rq))])
     @ map (\<lambda>v. NotLike (I ''payload'') (''%'' @ v @ ''%'')) (GetPayloadSearchNot rq)"
    by (simp add: payloadConds_eq getters)
  have 2: "applyPayloadWhere rq q =
     (if GetPayloadSearch rq = [] \<and> GetPayloadSearchNot rq = [] then q
      else Where q (And (payloadConds rq)))"
    by (simp add: applyPayloadWhere_eq payloadConds_eq getters)
  have 3: "keeps like (applyPayloadWhere rq q) r \<longleftrightarrow>
         keeps like q r \<and>
         list_ex (\<lambda>v. like (r (I ''payload'')) (''%'' @ v @ ''%'')) (GetPayloadSearch rq) \<and>
         list_all (\<lambda>v. \<not> like (r (I ''payload'')) (''%'' @ v @ ''%'')) (GetPayloadSearchNot rq)"
    if "GetPayloadSearch rq \<noteq> []"
    using that unfolding 2 1 by (auto simp: keeps_def list_ex_iff list_all_iff)
  have 4: "\<exists>rq' q' cols. ToSelectDataset now driver table rq = (rq', Inr (q', cols)) \<and>
      And (payloadConds rq) \<in> set (ds_where q')"
    if h: "GetPayloadSearch rq \<noteq> [] \<and> Validate rq = None \<and> \<not> IsSoftDeletedIncluded rq"
  proof -
    from h have "Validate rq = None" "\<not> isSoftDeletedIncluded rq" by (simp_all add: getters)
    from ToSelectDataset_default [OF this, of now driver table]
    obtain q' where "snd (ToSelectDataset now driver table rq) = Inr (q', columns rq)"
      and "ds_where q' =
       (if hasID rq then [Eq (C COLUMN_ID) (id' rq)] else []) @
       (if hasIDList rq \<and> filter (\<lambda>v. \<not> TrimSpace_empty v) (idList rq) \<noteq> []
        then [In (C COLUMN_ID) (filter (\<lambda>v. \<not> TrimSpace_empty v) (idList rq))] else []) @
       (if payloadConds rq = [] then [] else [And (payloadConds rq)]) @
       (if isTypeSet rq then [Eq (C COLUMN_RECORD_TYPE) (recordType rq)] else []) @
       [softDeletedExpr now]"
      by blast
    moreover from h have "payloadConds rq \<noteq> []" by (simp add: 1)
    ultimately show ?thesis
      by (cases "ToSelectDataset now driver table rq") simp
  qed
  from 1 2 3 4 show ?thesis by blast
qed

lemma payload_conditions_example:
  "applyPayloadWhere
       (AddPayloadSearchNot ''z'' (AddPayloadSearch ''y'' (AddPayloadSearch ''x'' NewRecordQuery)))
       (From ''sqlite'' ''records'')
     = Where (From ''sqlite'' ''records'')
         (And [Or [Like (I ''payload'') ''%x%'', Like (I ''payload'') ''%y%''],
               NotLike (I ''payload'') ''%z%'']) \<and>
   keeps like_match
     (applyPayloadWhere
       (AddPayloadSearchNot ''z'' (AddPayloadSearch ''y'' (AddPayloadSearch ''x'' NewRecordQuery)))
       (From ''sqlite'' ''records''))
     (\<lambda>c. ''ay'') \<and>
   \<not> keeps like_match
     (applyPayloadWhere
       (AddPayloadSearchNot ''z'' (AddPayloadSearch ''y'' (AddPayloadSearch ''x'' NewRecordQuery)))
       (From ''sqlite'' ''records''))
     (\<lambda>c. ''xz'') \<and>
   (\<exists>rq' q' cols.
      ToSelectDataset ''2024-01-01 00:00:00'' ''sqlite'' ''records''
        (AddPayloadSearchNot ''z'' (AddPayloadSearch ''y'' (AddPayloadSearch ''x'' NewRecordQuery)))
        = (rq', Inr (q', cols)) \<and>
      And [Or [Like (I ''payload'') ''%x%'', Like (I ''payload'') ''%y%''],
           NotLike (I ''payload'') ''%z%''] \<in> set (ds_where q'))"
proof -
  let ?rq = "AddPayloadSearchNot ''z'' (AddPayloadSearch ''y'' (AddPayloadSearch ''x'' NewRecordQuery))"
  let ?F = "From ''sqlite'' ''records''"
  have g: "GetPayloadSearch ?rq = [''x'', ''y'']" "GetPayloadSearchNot ?rq = [''z'']"
    by (simp_all add: getters setters NewRecordQuery_def)
  have v: "Validate ?rq = None" "\<not> IsSoftDeletedIncluded ?rq"
    by (simp_all add: Validate_def getters setters NewRecordQuery_def)
  have k: "keeps like_match ?F r" for r
    by (simp add: keeps_def)
  have m: "like_match ''ay'' ''%y%''" "\<not> like_match ''ay'' ''%z%''" "like_match ''xz'' ''%z%''"
    by simp_all
  note ay = payload_conditions_default_path [of ?rq ?F like_match "\<lambda>c. ''ay''"
      "''2024-01-01 00:00:00''" "''sqlite''" "''records''"]
  note xz = payload_conditions_default_path [of ?rq ?F like_match "\<lambda>c. ''xz''"
      "''2024-01-01 00:00:00''" "''sqlite''" "''records''"]
  have pc: "payloadConds ?rq =
      [Or [Like (I ''payload'') ''%x%'', Like (I ''payload'') ''%y%''],
       NotLike (I ''payload'') ''%z%'']"
    using ay [THEN conjunct1] by (simp add: g)
  have ap: "applyPayloadWhere ?rq ?F =
      Where ?F (And [Or [Like (I ''payload'') ''%x%'', Like (I ''payload'') ''%y%''],
                     NotLike (I ''payload'') ''%z%''])"
    using ay [THEN conjunct2, THEN conjunct1] by (simp add: g pc)
  have k1: "keeps like_match (applyPayloadWhere ?rq ?F) (\<lambda>c. ''ay'')"
    using ay [THEN conjunct2, THEN conjunct2, THEN conjunct1] k m by (simp add: g)
  have k2: "\<not> keeps like_match (applyPayloadWhere ?rq ?F) (\<lambda>c. ''xz'')"
    using xz [THEN conjunct2, THEN conjunct2, THEN conjunct1] k m by (simp add: g)
  have ts: "\<exists>rq' q' cols.
      ToSelectDataset ''2024-01-01 00:00:00'' ''sqlite'' ''records'' ?rq = (rq', Inr (q', cols)) \<and>
      And [Or [Like (I ''payload'') ''%x%'', Like (I ''payload'') ''%y%''],
           NotLike (I ''payload'') ''%z%''] \<in> set (ds_where q')"
    using ay [THEN conjunct2, THEN conjunct2, THEN conjunct2] v by (simp add: g pc)
  from ap k1 k2 ts show ?thesis by (intro conjI)
qed

text \<open>
  C7 says that for every query with at least one string to search for, the compiled
  statement requires the payload to match at least one of them, with one NOT LIKE per
  excluded string, all joined by AND. \<open>ToSelectDataset\<close> returns before
  \<open>applyPayloadWhere\<close> when soft-deleted records are asked for (lemma
  \<open>ToSelectDataset_override\<close>, the early return of C1): the query
  \<open>AddPayloadSearch("x").AddPayloadSearchNot("z").SetSoftDeletedIncluded(true)\<close> validates
  and has a string to search for, and its statement is the bare \<open>From driver table\<close>
  with no predicate at all, which keeps a row whose payload has no "x" and has a "z".
  The same query without the override carries the AND of the payload conditions.
\<close>

theorem C7_override_drops_payload_filter:
  "GetPayloadSearch (SetSoftDeletedIncluded True
       (AddPayloadSearchNot ''z'' (AddPayloadSearch ''x'' NewRecordQuery))) = [''x''] \<and>
   Validate (SetSoftDeletedIncluded True
       (AddPayloadSearchNot ''z'' (AddPayloadSearch ''x'' NewRecordQuery))) = None \<and>
   ToSelectDataset now driver table
       (SetSoftDeletedIncluded True (AddPayloadSearchNot ''z'' (AddPayloadSearch ''x'' NewRecordQuery)))
     = (SetSoftDeletedIncluded True (AddPayloadSearchNot ''z'' (AddPayloadSearch ''x'' NewRecordQuery)),
        Inr (From driver table, [])) \<and>
   ds_where (From driver table) = [] \<and>
   keeps like (From driver table) (\<lambda>c. ''z'') \<and>
   snd (ToSelectDataset now driver table
          (AddPayloadSearchNot ''z'' (AddPayloadSearch ''x'' NewRecordQuery)))
     = Inr (Where (Where (From driver table)
                     (And [Or [Like (I ''payload'') ''%x%''], NotLike (I ''payload'') ''%z%'']))
              (softDeletedExpr now), [])"
  by (simp add: eval_defs keeps_def)

subsection \<open>C8: a count-only query has no pagination\<close>

text \<open>
  C8: for every count-only query \<open>applyPagination\<close> returns the statement as it got it,
  and every statement that \<open>ToSelectDataset\<close> returns has neither a limit nor an offset,
  whatever limit and offset are set on the query.
\<close>

theorem C8_count_only_skips_pagination:
  assumes "IsCountOnly rq"
  shows "snd (applyPagination rq q) = q \<and>
    (\<forall>now driver table rq' q' cols.
       ToSelectDataset now driver table rq = (rq', Inr (q', cols)) \<longrightarrow>
         ds_limit q' = None \<and> ds_offset q' = None)"
proof -
  from assms have c: "isCountOnly rq" by (simp add: getters)
  then have 1: "snd (applyPagination rq q) = q" by (simp add: applyPagination_snd)
  have 2: "ds_limit q' = None \<and> ds_offset q' = None"
    if r: "ToSelectDataset now driver table rq = (rq', Inr (q', cols))"
    for now driver table rq' q' cols
  proof (cases rule: ToSelectDataset_cases [of rq now driver table])
    case (invalid e)
    with r show ?thesis by simp
  next
    case override
    with r show ?thesis by auto
  next
    case default
    from ToSelectDataset_default [OF default, of now driver table] r c
    show ?thesis by auto
  qed
  from 1 2 show ?thesis by blast
qed

theorem C8_count_only_skips_pagination_witness:
  "snd (applyPagination (SetCountOnly True (SetLimit 5 (SetOffset 20 NewRecordQuery)))
          (From ''sqlite'' ''records'')) = From ''sqlite'' ''records'' \<and>
   ToSelectDataset ''2024-01-01 00:00:00'' ''sqlite'' ''records''
       (SetCountOnly True (SetLimit 5 (SetOffset 20 NewRecordQuery)))
     = (SetCountOnly True (SetLimit 5 (SetOffset 20 NewRecordQuery)),
        Inr (Where (From ''sqlite'' ''records'') (softDeletedExpr ''2024-01-01 00:00:00''), [])) \<and>
   ds_limit (Where (From ''sqlite'' ''records'') (softDeletedExpr ''2024-01-01 00:00:00'')) = None \<and>
   ds_offset (Where (From ''sqlite'' ''records'') (softDeletedExpr ''2024-01-01 00:00:00'')) = None"
proof -
  let ?rq = "SetCountOnly True (SetLimit 5 (SetOffset 20 NewRecordQuery))"
  have a: "IsCountOnly ?rq" by (simp add: getters setters)
  have run: "ToSelectDataset ''2024-01-01 00:00:00'' ''sqlite'' ''records'' ?rq
     = (?rq, Inr (Where (From ''sqlite'' ''records'') (softDeletedExpr ''2024-01-01 00:00:00''), []))"
    by (simp add: eval_defs)
  from run C8_count_only_skips_pagination [OF a, of "From ''sqlite'' ''records''"]
  show ?thesis by blast
qed

subsection \<open>C9: compilation sets the default limit on the query itself\<close>

text \<open>
  The claim as written fails on a query that does not validate: with the type set to
  the empty string, an offset of 5 and no limit, \<open>ToSelectDataset\<close> returns the error
  "type is required" and leaves the query as it was, its limit still not set.
\<close>

theorem C9_invalid_query_not_mutated:
  "IsOffsetSet (SetOffset 5 (SetType [] NewRecordQuery)) \<and>
   \<not> IsLimitSet (SetOffset 5 (SetType [] NewRecordQuery)) \<and>
   ToSelectDataset ''2024-01-01 00:00:00'' ''sqlite'' ''records'' (SetOffset 5 (SetType [] NewRecordQuery))
     = (SetOffset 5 (SetType [] NewRecordQuery), Inl (errors_New ''type is required'')) \<and>
   \<not> IsLimitSet (fst (ToSelectDataset ''2024-01-01 00:00:00'' ''sqlite'' ''records''
                        (SetOffset 5 (SetType [] NewRecordQuery))))"
  by (simp add: eval_defs)

text \<open>
  C9, amended: for every query that validates, does not ask for soft-deleted records
  and has an offset set and no limit set, \<open>ToSelectDataset\<close> leaves the query as
  \<open>SetLimit(10)\<close> of the query it got, count-only or not: \<open>IsLimitSet\<close> is true and
  \<open>GetLimit\<close> is 10 afterwards. A query that does not validate is left as it was. And
  for every query at all, the only fields the call can change are the limit and its
  flag.
\<close>

theorem C9_compilation_sets_default_limit:
  "(Validate rq = None \<and> \<not> IsSoftDeletedIncluded rq \<and> IsOffsetSet rq \<and> \<not> IsLimitSet rq \<longrightarrow>
      fst (ToSelectDataset now driver table rq) = SetLimit 10 rq \<and>
      IsLimitSet (fst (ToSelectDataset now driver table rq)) \<and>
      GetLimit (fst (ToSelectDataset now driver table rq)) = 10) \<and>
   (Validate rq \<noteq> None \<longrightarrow> fst (ToSelectDataset now driver table rq) = rq) \<and>
   (fst (ToSelectDataset now driver table rq))\<lparr>isLimitSet := isLimitSet rq, limit := limit rq\<rparr> = rq"
  by (simp add: ToSelectDataset_fst getters SetLimit_def)

theorem C9_compilation_sets_default_limit_witness:
  "fst (ToSelectDataset ''2024-01-01 00:00:00'' ''sqlite'' ''records''
          (SetCountOnly True (SetOffset 20 NewRecordQuery)))
     = SetLimit 10 (SetCountOnly True (SetOffset 20 NewRecordQuery)) \<and>
   IsLimitSet (fst (ToSelectDataset ''2024-01-01 00:00:00'' ''sqlite'' ''records''
          (SetCountOnly True (SetOffset 20 NewRecordQuery)))) \<and>
   GetLimit (fst (ToSelectDataset ''2024-01-01 00:00:00'' ''sqlite'' ''records''
          (SetCountOnly True (SetOffset 20 NewRecordQuery)))) = 10 \<and>
   fst (ToSelectDataset ''2024-01-01 00:00:00'' ''sqlite'' ''records'' (SetType [] NewRecordQuery))
     = SetType [] NewRecordQuery"
proof -
  let ?rq = "SetCountOnly True (SetOffset 20 NewRecordQuery)"
  have a: "Validate ?rq = None \<and> \<not> IsSoftDeletedIncluded ?rq \<and> IsOffsetSet ?rq \<and> \<not> IsLimitSet ?rq"
    by (simp add: Validate_def getters setters NewRecordQuery_def)
  have b: "Validate (SetType [] NewRecordQuery) \<noteq> None"
    by (simp add: Validate_def getters setters NewRecordQuery_def)
  from a b
    C9_compilation_sets_default_limit [of ?rq "''2024-01-01 00:00:00''" "''sqlite''" "''records''"]
    C9_compilation_sets_default_limit [of "SetType [] NewRecordQuery" "''2024-01-01 00:00:00''"
      "''sqlite''" "''records''"]
  show ?thesis by blast
qed

subsection \<open>C10: "id is required" cannot be reached\<close>

text \<open>
  C10: no query built through the interface has its ID flag set with an empty ID, so
  \<open>Validate\<close> never returns "id is required" on such a query.
\<close>

theorem C10_id_is_required_unreachable:
  "\<not> (IsIDSet (built cs) \<and> GetID (built cs) = []) \<and>
   Validate (built cs) \<noteq> Some (errors_New ''id is required'')"
  using built_id_inv [of cs] by (simp add: Validate_def getters Let_def)

end
